theory Spec2Isabelle
  imports Complex_Main "HOL-Library.Word"
begin

section \<open>Double-precision numbers\<close>

text \<open>
  The development embeds \<^verbatim>\<open>NoiseCaloCellsFromFileTool.cpp\<close>.

  A C++ \<^verbatim>\<open>double\<close> is a real number, an infinity or a NaN. The two zeros
  of IEEE 754 are not told apart; a division by zero takes the zero as
  positive.
\<close>

datatype double = Finite real | PInf | NInf | NaN

fun dneg :: "double \<Rightarrow> double" where
  "dneg (Finite x) = Finite (- x)"
| "dneg PInf = NInf"
| "dneg NInf = PInf"
| "dneg NaN = NaN"

fun fabs :: "double \<Rightarrow> double" where
  "fabs (Finite x) = Finite \<bar>x\<bar>"
| "fabs PInf = PInf"
| "fabs NInf = PInf"
| "fabs NaN = NaN"

fun dadd :: "double \<Rightarrow> double \<Rightarrow> double" where
  "dadd (Finite x) (Finite y) = Finite (x + y)"
| "dadd NaN b = NaN"
| "dadd a NaN = NaN"
| "dadd PInf NInf = NaN"
| "dadd NInf PInf = NaN"
| "dadd PInf b = PInf"
| "dadd NInf b = NInf"
| "dadd a PInf = PInf"
| "dadd a NInf = NInf"

definition dsub :: "double \<Rightarrow> double \<Rightarrow> double" where
  "dsub a b = dadd a (dneg b)"

fun dmul :: "double \<Rightarrow> double \<Rightarrow> double" where
  "dmul (Finite x) (Finite y) = Finite (x * y)"
| "dmul NaN b = NaN"
| "dmul a NaN = NaN"
| "dmul (Finite x) b = (if x = 0 then NaN else if 0 < x then b else dneg b)"
| "dmul a (Finite y) = (if y = 0 then NaN else if 0 < y then a else dneg a)"
| "dmul PInf b = b"
| "dmul NInf b = dneg b"

fun ddiv :: "double \<Rightarrow> double \<Rightarrow> double" where
  "ddiv (Finite x) (Finite y) =
     (if y \<noteq> 0 then Finite (x / y)
      else if x = 0 then NaN else if 0 < x then PInf else NInf)"
| "ddiv NaN b = NaN"
| "ddiv a NaN = NaN"
| "ddiv (Finite x) b = Finite 0"
| "ddiv a (Finite y) = (if 0 \<le> y then a else dneg a)"
| "ddiv a b = NaN"

fun dsqrt :: "double \<Rightarrow> double" where
  "dsqrt (Finite x) = (if 0 \<le> x then Finite (sqrt x) else NaN)"
| "dsqrt PInf = PInf"
| "dsqrt NInf = NaN"
| "dsqrt NaN = NaN"

fun dfloor :: "double \<Rightarrow> double" where
  "dfloor (Finite x) = Finite (of_int \<lfloor>x\<rfloor>)"
| "dfloor a = a"

text \<open>The comparisons \<^verbatim>\<open><\<close> and \<^verbatim>\<open><=\<close>: false as soon as a NaN takes part.\<close>

fun dless :: "double \<Rightarrow> double \<Rightarrow> bool" where
  "dless (Finite x) (Finite y) \<longleftrightarrow> x < y"
| "dless NaN b \<longleftrightarrow> False"
| "dless a NaN \<longleftrightarrow> False"
| "dless a NInf \<longleftrightarrow> False"
| "dless PInf b \<longleftrightarrow> False"
| "dless a b \<longleftrightarrow> True"


text \<open>\<^verbatim>\<open>pow(x, 2)\<close>.\<close>

definition pow_2 :: "double \<Rightarrow> double" where
  "pow_2 a = dmul a a"

subsection \<open>Rounding\<close>

text \<open>
  Rounding of a real number to the nearest number with a 53-bit significand,
  ties to the even significand, exponents from -1022 on (below, the spacing
  stays \<open>2 powi - 1074\<close>); a result of magnitude \<open>2 ^ 1024\<close> or more becomes
  an infinity.

  Where a double turns into an integer, which is the search of the eta bin in
  lines 191--198, every operation rounds its result in this way. The
  arithmetic on the noise values and on the energies (lines 94, 102, 220) is
  taken exact on finite numbers and follows IEEE 754 on infinities and NaN.
\<close>

definition expo :: "real \<Rightarrow> int" where
  "expo x = \<lfloor>log 2 \<bar>x\<bar>\<rfloor>"

definition round_even :: "real \<Rightarrow> int" where
  "round_even y =
     (let f = \<lfloor>y\<rfloor>; r = y - of_int f
      in if r < 1 / 2 then f else if 1 / 2 < r then f + 1 else if even f then f else f + 1)"

definition rd :: "real \<Rightarrow> real" where
  "rd x =
     (if x = 0 then 0
      else let e = max (expo x) (- 1022); ulp = 2 powi (e - 52)
           in of_int (round_even (x / ulp)) * ulp)"

definition overflow_threshold :: real where
  "overflow_threshold = 2 ^ 1024"

fun rnd :: "double \<Rightarrow> double" where
  "rnd (Finite x) =
     (if overflow_threshold \<le> \<bar>rd x\<bar> then (if 0 < x then PInf else NInf)
      else Finite (rd x))"
| "rnd a = a"

section \<open>Data model\<close>

text \<open>
  \<^verbatim>\<open>int\<close> quantities (bin numbers) are integers, \<^verbatim>\<open>unsigned\<close> and \<^verbatim>\<open>size_t\<close>
  quantities are naturals, a cell identifier is a 64-bit word (the
  conversions between \<^verbatim>\<open>uint64_t\<close> and \<^verbatim>\<open>int64_t\<close> keep the bits).

  ROOT's \<^verbatim>\<open>TH1F\<close> and \<^verbatim>\<open>TFile\<close>, the detector description and the random
  number service are not part of the file. They appear through exactly the
  member functions that the file calls, as fields of records. A pointer is
  an option, \<open>None\<close> being the null pointer.
\<close>

type_synonym cellid = "64 word"

record TH1F =
  GetNbinsX :: int
  GetBinLowEdge :: "int \<Rightarrow> double"
  GetBinWidth :: "int \<Rightarrow> double"
  GetBinContent :: "int \<Rightarrow> double"

text \<open>
  \<^verbatim>\<open>TFile::Get\<close> followed by \<^verbatim>\<open>dynamic_cast<TH1F*>\<close>: \<open>None\<close> is the null
  pointer (no object of that name, or an object that is not a \<^verbatim>\<open>TH1F\<close>).
\<close>

record TFile =
  IsZombie :: bool
  Get :: "string \<Rightarrow> TH1F option"

text \<open>
  What \<^verbatim>\<open>initialize\<close> leaves for \<^verbatim>\<open>getNoiseConstantPerCell\<close>:
  the pointer \<^verbatim>\<open>m_segmentationPhiEta\<close> (an object is given by its function
  \<^verbatim>\<open>eta\<close>), the pointer \<^verbatim>\<open>m_segmentationMulti\<close> (an object is given by
  \<^verbatim>\<open>subsegmentation\<close> followed by the \<^verbatim>\<open>dynamic_cast\<close> to a phi-eta grid), the
  handle \<^verbatim>\<open>m_cellPositionsTool\<close> (a tool is given by
  \<^verbatim>\<open>xyzPosition(id).Eta()\<close>) and the decoder of the readout (given by
  \<^verbatim>\<open>get(id, m_activeFieldName)\<close>). \<^verbatim>\<open>initialize\<close> succeeds with a null
  \<^verbatim>\<open>m_segmentationPhiEta\<close> when the readout has a multi-segmentation
  (lines 65--82).
\<close>

record geometry =
  m_segmentationPhiEta :: "(cellid \<Rightarrow> double) option"
  m_segmentationMulti :: "(cellid \<Rightarrow> (cellid \<Rightarrow> double) option) option"
  m_cellPositionsTool :: "(cellid \<Rightarrow> double) option"
  decoder_get :: "cellid \<Rightarrow> int"

record tool =
  m_noiseFileName :: string
  m_elecNoiseHistoName :: string
  m_pileupHistoName :: string
  m_numRadialLayers :: nat
  m_addPileup :: bool
  m_useSeg :: bool
  m_filterThreshold :: double
  m_histoElecNoiseConst :: "TH1F list"
  m_histoPileupConst :: "TH1F list"

text \<open>
  Every way in which a member function leaves without its normal result.
  The five \<^verbatim>\<open>StatusCode::FAILURE\<close> returns of \<^verbatim>\<open>initNoiseFromFile\<close> are told
  apart by the message logged just before; \<open>OutOfRange\<close> is the exception of
  \<^verbatim>\<open>std::vector::at\<close>; \<open>NullDereference\<close> is the dereference of a null pointer;
  \<open>UndefinedConversion\<close> is the conversion to \<^verbatim>\<open>int\<close> of a double whose
  truncation is no \<^verbatim>\<open>int\<close>. The last two are undefined behaviour.
\<close>

datatype error =
    FileNameNotSet
  | CouldNotOpenFile
  | HistogramHasZeroBins string
  | NoHistogramsFound
  | DifferentNumberOfHistograms
  | OutOfRange
  | NullDereference
  | UndefinedConversion

definition at_vec :: "'a list \<Rightarrow> nat \<Rightarrow> error + 'a" where
  "at_vec xs i = (if i < length xs then Inr (xs ! i) else Inl OutOfRange)"

text \<open>The conversion of a double to a 32-bit \<^verbatim>\<open>int\<close>: truncation towards zero.\<close>

definition double_to_int :: "double \<Rightarrow> error + int" where
  "double_to_int a =
     (case a of
        Finite v \<Rightarrow>
          (let n = (if 0 \<le> v then \<lfloor>v\<rfloor> else \<lceil>v\<rceil>)
           in if - (2 ^ 31) \<le> n \<and> n \<le> 2 ^ 31 - 1 then Inr n else Inl UndefinedConversion)
      | _ \<Rightarrow> Inl UndefinedConversion)"

section \<open>getNoiseConstantPerCell\<close>

text \<open>
  Lines 168--171: the local \<^verbatim>\<open>segmentation\<close>. It is the member if that is
  not null and else the sub-segmentation of the cell, which dereferences
  \<^verbatim>\<open>m_segmentationMulti\<close>. Nothing reads it afterwards.
\<close>

definition segmentation :: "geometry \<Rightarrow> cellid \<Rightarrow> error + (cellid \<Rightarrow> double) option" where
  "segmentation g aCellId =
     (case m_segmentationPhiEta g of
        Some s \<Rightarrow> Inr (Some s)
      | None \<Rightarrow>
         (case m_segmentationMulti g of
            None \<Rightarrow> Inl NullDereference
          | Some multi \<Rightarrow> Inr (multi aCellId)))"

text \<open>Lines 180--184: the cell's eta, read through the member pointer.\<close>

definition cellEta :: "tool \<Rightarrow> geometry \<Rightarrow> cellid \<Rightarrow> error + double" where
  "cellEta t g aCellId =
     (if m_useSeg t then
        (case m_segmentationPhiEta g of
           None \<Rightarrow> Inl NullDereference
         | Some s \<Rightarrow> Inr (s aCellId))
      else
        (case m_cellPositionsTool g of
           None \<Rightarrow> Inl NullDereference
         | Some position \<Rightarrow> Inr (position aCellId)))"

text \<open>Line 185: the layer, converted to \<^verbatim>\<open>unsigned\<close>.\<close>

definition cellLayer :: "geometry \<Rightarrow> cellid \<Rightarrow> nat" where
  "cellLayer g aCellId = nat (decoder_get g aCellId mod 2 ^ 32)"

text \<open>Lines 191--196, on the histogram of the first layer.\<close>

definition deltaEtaBin :: "TH1F \<Rightarrow> double" where
  "deltaEtaBin h =
     rnd (ddiv
            (rnd (dsub (rnd (dadd (GetBinLowEdge h (GetNbinsX h)) (GetBinWidth h (GetNbinsX h))))
                       (GetBinLowEdge h 1)))
            (Finite (of_int (GetNbinsX h))))"

definition etaFirtsBin :: "TH1F \<Rightarrow> double" where
  "etaFirtsBin h = GetBinLowEdge h 1"

text \<open>
  Lines 198--203: the eta bin of the cell. \<^verbatim>\<open>floor(...) + 1\<close> is computed in
  double precision and then stored in an \<^verbatim>\<open>int\<close>; only afterwards is it
  compared with the number of bins, and only from above.
\<close>

definition etaBin :: "TH1F \<Rightarrow> double \<Rightarrow> error + int" where
  "etaBin h eta =
     (let Nbins = GetNbinsX h;
          quotient = rnd (ddiv (rnd (dsub (fabs eta) (etaFirtsBin h))) (deltaEtaBin h))
      in case double_to_int (rnd (dadd (dfloor quotient) (Finite 1))) of
           Inl e \<Rightarrow> Inl e
         | Inr ibin \<Rightarrow> Inr (if ibin > Nbins then Nbins else ibin))"

text \<open>
  Lines 168--217: the pair \<open>(elecNoise, pileupNoise)\<close> at the end of the outer
  \<^verbatim>\<open>if\<close>. Both start at 0 and are assigned only where the layer has a
  histogram.
\<close>

definition noiseComponents :: "tool \<Rightarrow> geometry \<Rightarrow> cellid \<Rightarrow> error + (double \<times> double)" where
  "noiseComponents t g aCellId =
     (case segmentation g aCellId of
        Inl e \<Rightarrow> Inl e
      | Inr unused \<Rightarrow>
     (case cellEta t g aCellId of
        Inl e \<Rightarrow> Inl e
      | Inr eta \<Rightarrow>
         (let layer = cellLayer g aCellId in
          if length (m_histoElecNoiseConst t) \<noteq> 0 then
            (case at_vec (m_histoElecNoiseConst t) 0 of
               Inl e \<Rightarrow> Inl e
             | Inr h0 \<Rightarrow>
            (case etaBin h0 eta of
               Inl e \<Rightarrow> Inl e
             | Inr ibin \<Rightarrow>
                if layer < length (m_histoElecNoiseConst t) then
                  (case at_vec (m_histoElecNoiseConst t) layer of
                     Inl e \<Rightarrow> Inl e
                   | Inr he \<Rightarrow>
                      if m_addPileup t then
                        (case at_vec (m_histoPileupConst t) layer of
                           Inl e \<Rightarrow> Inl e
                         | Inr hp \<Rightarrow> Inr (GetBinContent he ibin, GetBinContent hp ibin))
                      else Inr (GetBinContent he ibin, Finite 0))
                else Inr (Finite 0, Finite 0)))
          else Inr (Finite 0, Finite 0))))"

text \<open>Lines 167--227.\<close>

definition getNoiseConstantPerCell :: "tool \<Rightarrow> geometry \<Rightarrow> cellid \<Rightarrow> error + double" where
  "getNoiseConstantPerCell t g aCellId =
     (case noiseComponents t g aCellId of
        Inl e \<Rightarrow> Inl e
      | Inr (elecNoise, pileupNoise) \<Rightarrow>
          Inr (dsqrt (dadd (pow_2 elecNoise) (pow_2 pileupNoise))))"

section \<open>addRandomCellNoise\<close>

text \<open>
  The cell collection is a \<^verbatim>\<open>std::unordered_map<uint64_t, double>\<close>. It is
  modelled by the sequence of its entries in iteration order, from
  \<^verbatim>\<open>begin()\<close> to \<^verbatim>\<open>end()\<close>; the keys of a map are pairwise distinct. An
  iterator is a position in that sequence, \<^verbatim>\<open>end()\<close> being its length.
\<close>

type_synonym cells = "(cellid \<times> double) list"




section \<open>filterCellNoise\<close>

text \<open>Lines 101--103: the predicate handed to \<^verbatim>\<open>std::find_if\<close>.\<close>

definition below_threshold :: "tool \<Rightarrow> geometry \<Rightarrow> cellid \<times> double \<Rightarrow> error + bool" where
  "below_threshold t g p =
     (case getNoiseConstantPerCell t g (fst p) of
        Inl e \<Rightarrow> Inl e
      | Inr noise \<Rightarrow> Inr (dless (snd p) (dmul (m_filterThreshold t) noise)))"

text \<open>
  \<^verbatim>\<open>std::find_if(it, end, pred)\<close>: the first position from \<open>it\<close> on whose entry
  satisfies the predicate, or \<^verbatim>\<open>end\<close>. An iterator never lies behind
  \<^verbatim>\<open>end\<close>, so \<^verbatim>\<open>first != last\<close> reads \<open>it < length xs\<close>. The last argument is
  a log of the entries the predicate has been applied to; it has no
  counterpart in the program and serves to count the evaluations.
\<close>

function find_if ::
  "('a \<Rightarrow> error + bool) \<Rightarrow> 'a list \<Rightarrow> nat \<Rightarrow> 'a list \<Rightarrow> error + (nat \<times> 'a list)" where
  "find_if pred xs it evaluated =
     (if it < length xs then
        (case pred (xs ! it) of
           Inl e \<Rightarrow> Inl e
         | Inr b \<Rightarrow>
            if b then Inr (it, evaluated @ [xs ! it])
            else find_if pred xs (Suc it) (evaluated @ [xs ! it]))
      else Inr (length xs, evaluated))"
  by pat_completeness auto
termination
  by (relation "measure (\<lambda>(pred, xs, it, evaluated). length xs - it)") auto

declare find_if.simps [simp del]

text \<open>\<^verbatim>\<open>erase(it)\<close>: the entries after the erased one keep their order.\<close>

definition erase :: "'a list \<Rightarrow> nat \<Rightarrow> 'a list" where
  "erase xs it = take it xs @ drop (Suc it) xs"

text \<open>
  Lines 100--105. After \<^verbatim>\<open>aCells.erase(it++)\<close> the iterator designates the
  entry that followed the erased one, which now sits at the position of the
  erased one.
\<close>

function filterCellNoise_loop ::
  "tool \<Rightarrow> geometry \<Rightarrow> cells \<Rightarrow> nat \<Rightarrow> cells \<Rightarrow> error + (cells \<times> cells)" where
  "filterCellNoise_loop t g aCells it evaluated =
     (case find_if (below_threshold t g) aCells it evaluated of
        Inl e \<Rightarrow> Inl e
      | Inr (it', evaluated') \<Rightarrow>
         if it' < length aCells then filterCellNoise_loop t g (erase aCells it') it' evaluated'
         else Inr (aCells, evaluated'))"
  by pat_completeness auto
termination
  by (relation "measure (\<lambda>(t, g, aCells, it, evaluated). length aCells)")
     (auto simp: erase_def)

declare filterCellNoise_loop.simps [simp del]

definition filterCellNoise :: "tool \<Rightarrow> geometry \<Rightarrow> cells \<Rightarrow> error + (cells \<times> cells)" where
  "filterCellNoise t g aCells = filterCellNoise_loop t g aCells 0 []"

section \<open>initNoiseFromFile\<close>

text \<open>\<^verbatim>\<open>std::to_string\<close> on an unsigned number.\<close>

definition digit :: "nat \<Rightarrow> char" where
  "digit d = ''0123456789'' ! d"

function to_string :: "nat \<Rightarrow> string" where
  "to_string n = (if n < 10 then [digit n] else to_string (n div 10) @ [digit (n mod 10)])"
  by pat_completeness auto
termination
  by (relation "measure id") auto

declare to_string.simps [simp del]

text \<open>
  Lines 129--148: the loop over the radial layers, from layer \<open>i\<close> on. The
  histogram pointer is dereferenced as it comes from the file.
\<close>

function readHistograms :: "tool \<Rightarrow> TFile \<Rightarrow> nat \<Rightarrow> error + tool" where
  "readHistograms t noiseFile i =
     (if i < m_numRadialLayers t then
        (let elecNoiseLayerHistoName = m_elecNoiseHistoName t @ to_string (i + 1) in
         case Get noiseFile elecNoiseLayerHistoName of
           None \<Rightarrow> Inl NullDereference
         | Some h \<Rightarrow>
            (let t1 = t\<lparr>m_histoElecNoiseConst := m_histoElecNoiseConst t @ [h]\<rparr> in
             case at_vec (m_histoElecNoiseConst t1) i of
               Inl e \<Rightarrow> Inl e
             | Inr hi \<Rightarrow>
                if GetNbinsX hi < 1 then Inl (HistogramHasZeroBins elecNoiseLayerHistoName)
                else if m_addPileup t1 then
                  (let pileupLayerHistoName = m_pileupHistoName t1 @ to_string (i + 1) in
                   case Get noiseFile pileupLayerHistoName of
                     None \<Rightarrow> Inl NullDereference
                   | Some hp \<Rightarrow>
                      (let t2 = t1\<lparr>m_histoPileupConst := m_histoPileupConst t1 @ [hp]\<rparr> in
                       case at_vec (m_histoPileupConst t2) i of
                         Inl e \<Rightarrow> Inl e
                       | Inr hpi \<Rightarrow>
                          if GetNbinsX hpi < 1
                          then Inl (HistogramHasZeroBins pileupLayerHistoName)
                          else readHistograms t2 noiseFile (Suc i)))
                else readHistograms t1 noiseFile (Suc i)))
      else Inr t)"
  by pat_completeness auto
termination
  by (relation "measure (\<lambda>(t, noiseFile, i). m_numRadialLayers t - i)") auto

declare readHistograms.simps [simp del]

text \<open>Lines 152--164: the checks after the file has been closed.\<close>

definition checkHistograms :: "tool \<Rightarrow> error + tool" where
  "checkHistograms t =
     (if length (m_histoElecNoiseConst t) = 0 then Inl NoHistogramsFound
      else if m_addPileup t
              \<and> length (m_histoElecNoiseConst t) \<noteq> length (m_histoPileupConst t)
      then Inl DifferentNumberOfHistograms
      else Inr t)"

text \<open>
  Lines 113--165. \<open>TFile_Open\<close> is \<^verbatim>\<open>TFile::Open(name, "READ")\<close>, which yields
  a null pointer or a file object.
\<close>

definition initNoiseFromFile :: "(string \<Rightarrow> TFile option) \<Rightarrow> tool \<Rightarrow> error + tool" where
  "initNoiseFromFile TFile_Open t =
     (if m_noiseFileName t = [] then Inl FileNameNotSet
      else
        (case TFile_Open (m_noiseFileName t) of
           None \<Rightarrow> Inl NullDereference
         | Some noiseFile \<Rightarrow>
            if IsZombie noiseFile then Inl CouldNotOpenFile
            else
              (case readHistograms t noiseFile 0 of
                 Inl e \<Rightarrow> Inl e
               | Inr t' \<Rightarrow> checkHistograms t')))"

section \<open>Derived notions\<close>

text \<open>A call returns normally.\<close>

definition returns :: "error + 'a \<Rightarrow> bool" where
  "returns r = (case r of Inl e \<Rightarrow> False | Inr v \<Rightarrow> True)"

text \<open>
  The condition tested at lines 157--162, which \<^verbatim>\<open>initNoiseFromFile\<close> requires
  before it reports success.
\<close>

definition same_number_of_histograms :: "tool \<Rightarrow> bool" where
  "same_number_of_histograms t \<longleftrightarrow>
     (m_addPileup t \<longrightarrow> length (m_histoElecNoiseConst t) = length (m_histoPileupConst t))"

text \<open>The number that \<^verbatim>\<open>getNoiseConstantPerCell\<close> returns, where it returns one.\<close>

definition estimate :: "tool \<Rightarrow> geometry \<Rightarrow> cellid \<Rightarrow> double" where
  "estimate t g aCellId =
     (case getNoiseConstantPerCell t g aCellId of Inl e \<Rightarrow> Finite 0 | Inr noise \<Rightarrow> noise)"

section \<open>Concrete inputs\<close>

text \<open>
  The histogram that \<^verbatim>\<open>TH1F(name, title, n, xlow, xup)\<close> constructs, with the
  same content \<open>c\<close> in every bin: its axis computes the bin width as
  \<^verbatim>\<open>(xup - xlow) / n\<close> and the low edge of a bin as
  \<^verbatim>\<open>xlow + (bin - 1) * width\<close>, in double precision (\<open>n\<close> is at least 1). A
  histogram without bins. A tool holding given
  histograms, with threshold 3 and \<^verbatim>\<open>m_useSeg\<close> set. A detector with a
  phi-eta segmentation in which every cell has the same eta and layer, and the
  same detector with a multi-segmentation, as \<^verbatim>\<open>initialize\<close> leaves them. A
  file holding no histogram; a file holding one histogram; a file system with
  a single file; a generator that always delivers the same number.
\<close>

definition uniformHistogram :: "int \<Rightarrow> real \<Rightarrow> real \<Rightarrow> double \<Rightarrow> TH1F" where
  "uniformHistogram n xlow xup c =
     \<lparr>GetNbinsX = n,
      GetBinLowEdge = (\<lambda>b. Finite (rd (xlow + rd (of_int (b - 1) * rd (rd (xup - xlow) / of_int n))))),
      GetBinWidth = (\<lambda>b. Finite (rd (rd (xup - xlow) / of_int n))),
      GetBinContent = (\<lambda>b. c)\<rparr>"

definition histogramWithoutBins :: TH1F where
  "histogramWithoutBins =
     \<lparr>GetNbinsX = 0, GetBinLowEdge = (\<lambda>b. Finite 0), GetBinWidth = (\<lambda>b. Finite 0),
      GetBinContent = (\<lambda>b. Finite 0)\<rparr>"

definition fixtureTool :: "nat \<Rightarrow> bool \<Rightarrow> TH1F list \<Rightarrow> TH1F list \<Rightarrow> tool" where
  "fixtureTool n pileup es ps =
     \<lparr>m_noiseFileName = ''noise.root'', m_elecNoiseHistoName = ''h_elecNoise_'',
      m_pileupHistoName = ''h_pileup_'', m_numRadialLayers = n,
      m_addPileup = pileup, m_useSeg = True, m_filterThreshold = Finite 3,
      m_histoElecNoiseConst = es, m_histoPileupConst = ps\<rparr>"

definition fixtureGeometry :: "real \<Rightarrow> int \<Rightarrow> geometry" where
  "fixtureGeometry eta layer =
     \<lparr>m_segmentationPhiEta = Some (\<lambda>c. Finite eta), m_segmentationMulti = None,
      m_cellPositionsTool = Some (\<lambda>c. Finite eta), decoder_get = (\<lambda>c. layer)\<rparr>"

definition multiSegmentationGeometry :: "real \<Rightarrow> int \<Rightarrow> geometry" where
  "multiSegmentationGeometry eta layer =
     \<lparr>m_segmentationPhiEta = None,
      m_segmentationMulti = Some (\<lambda>c. Some (\<lambda>c. Finite eta)),
      m_cellPositionsTool = Some (\<lambda>c. Finite eta), decoder_get = (\<lambda>c. layer)\<rparr>"

definition fileWithoutHistograms :: TFile where
  "fileWithoutHistograms = \<lparr>IsZombie = False, Get = (\<lambda>name. None)\<rparr>"

definition fileWithHistogram :: "string \<Rightarrow> TH1F \<Rightarrow> TFile" where
  "fileWithHistogram key h =
     \<lparr>IsZombie = False, Get = (\<lambda>name. if name = key then Some h else None)\<rparr>"

definition onlyFile :: "TFile \<Rightarrow> string \<Rightarrow> TFile option" where
  "onlyFile f name = Some f"


section \<open>Properties of the rounding\<close>

lemma two_powr_int: "(2::real) powr of_int k = 2 powi k"
  by (simp add: powr_real_of_int')

lemma expo_unique:
  assumes "2 powi e \<le> \<bar>x\<bar>" and "\<bar>x\<bar> < 2 powi (e + 1)"
  shows "expo x = e"
proof -
  have pos: "0 < \<bar>x\<bar>"
    using assms(1) by (smt (verit) zero_less_power_int)
  have "(2::real) powr of_int e \<le> \<bar>x\<bar>"
    using assms(1) by (simp only: two_powr_int)
  then have lo: "of_int e \<le> log 2 \<bar>x\<bar>"
    using pos by (simp add: le_log_iff)
  have "\<bar>x\<bar> < (2::real) powr of_int (e + 1)"
    using assms(2) by (simp only: two_powr_int)
  then have "log 2 \<bar>x\<bar> < of_int (e + 1)"
    using pos by (simp add: log_less_iff del: of_int_add)
  then have hi: "log 2 \<bar>x\<bar> < of_int e + 1" by simp
  show ?thesis unfolding expo_def using lo hi by (rule floor_unique)
qed

lemma expo_bounds:
  assumes "x \<noteq> 0"
  shows "2 powi (expo x) \<le> \<bar>x\<bar>" and "\<bar>x\<bar> < 2 powi (expo x + 1)"
proof -
  have pos: "0 < \<bar>x\<bar>" using assms by simp
  have "of_int (expo x) \<le> log 2 \<bar>x\<bar>" by (simp add: expo_def)
  then have "(2::real) powr of_int (expo x) \<le> \<bar>x\<bar>"
    using pos by (simp add: le_log_iff)
  then show "2 powi (expo x) \<le> \<bar>x\<bar>" by (simp only: two_powr_int)
  have "log 2 \<bar>x\<bar> < of_int (expo x) + 1" unfolding expo_def by linarith
  then have "log 2 \<bar>x\<bar> < of_int (expo x + 1)" by simp
  then have "\<bar>x\<bar> < (2::real) powr of_int (expo x + 1)"
    using pos by (simp add: log_less_iff del: of_int_add)
  then show "\<bar>x\<bar> < 2 powi (expo x + 1)" by (simp only: two_powr_int)
qed

lemma rd_eval:
  assumes "2 powi e \<le> \<bar>x\<bar>" and "\<bar>x\<bar> < 2 powi (e + 1)" and "- 1022 \<le> e"
  shows "rd x = of_int (round_even (x / 2 powi (e - 52))) * 2 powi (e - 52)"
proof -
  have "x \<noteq> 0" using assms(1) by (smt (verit) zero_less_power_int)
  then show ?thesis
    using expo_unique [OF assms(1,2)] assms(3) by (simp add: rd_def Let_def max_def)
qed

lemma rd_tenth: "rd (1 / 10) = 3602879701896397 / 36028797018963968"
  using rd_eval [of "- 4" "1 / 10"] by (simp add: round_even_def)


lemma round_even_of_int: "round_even (of_int n) = n"
  by (simp add: round_even_def)


lemma two_powi_less_D:
  assumes "(2::real) powi a < 2 powi b"
  shows "a < b"
proof (rule ccontr)
  assume "\<not> a < b"
  then have "(2::real) powi b \<le> 2 powi a" by (intro power_int_increasing) simp_all
  then show False using assms by simp
qed










lemma rd_of_int:
  assumes "0 \<le> n" and "n < 2 ^ 53"
  shows "rd (of_int n) = of_int n"
proof (cases "n = 0")
  case True
  then show ?thesis by (simp add: rd_def)
next
  case False
  then have pos: "0 < (of_int n :: real)" using assms(1) by simp
  define e where "e = expo (of_int n)"
  have "(of_int n :: real) < of_int (2 ^ 53)" using assms(2) by (simp only: of_int_less_iff)
  then have "(of_int n :: real) < 2 powi 53" by simp
  moreover have "(2::real) powi e \<le> of_int n"
    using expo_bounds(1) [of "of_int n"] pos by (simp add: e_def)
  ultimately have "(2::real) powi e < 2 powi 53" by simp
  then have e53: "e < 53" by (rule two_powi_less_D)
  have "(1::real) \<le> of_int n" using False assms(1) by simp
  moreover have "(of_int n :: real) < 2 powi (e + 1)"
    using expo_bounds(2) [of "of_int n"] pos by (simp add: e_def)
  ultimately have "(2::real) powi 0 < 2 powi (e + 1)" by simp
  then have "0 < e + 1" by (rule two_powi_less_D)
  then have e0: "0 \<le> e" by simp
  define k where "k = nat (52 - e)"
  have "(2::real) powi (e - 52) * 2 powi (52 - e) = 2 powi ((e - 52) + (52 - e))"
    by (rule power_int_add [symmetric]) simp
  moreover have "(2::real) powi (52 - e) = 2 ^ k" using e53 by (simp add: k_def power_int_def)
  ultimately have ulp: "(2::real) powi (e - 52) = 1 / 2 ^ k" by (simp add: field_simps)
  have "of_int n / (2::real) powi (e - 52) = of_int (n * 2 ^ k)" by (simp add: ulp)
  then have "round_even (of_int n / 2 powi (e - 52)) = n * 2 ^ k"
    by (simp only: round_even_of_int)
  then have "(of_int (round_even (of_int n / 2 powi (e - 52))) :: real) = of_int n * 2 ^ k"
    by simp
  then have "of_int (round_even (of_int n / 2 powi (e - 52))) * (2::real) powi (e - 52)
             = of_int n"
    by (simp add: ulp)
  then show ?thesis
    using False e0 by (simp add: rd_def Let_def e_def max_def)
qed



subsection \<open>Evaluation of the bin search\<close>

lemma double_to_int_of_int:
  "double_to_int (Finite (of_int m)) =
     (if - (2 ^ 31) \<le> m \<and> m \<le> 2 ^ 31 - 1 then Inr m else Inl UndefinedConversion)"
  by (simp add: double_to_int_def Let_def)

lemma rnd_finite: "\<bar>rd x\<bar> < overflow_threshold \<Longrightarrow> rnd (Finite x) = Finite (rd x)"
  by simp


lemma etaBin_eval:
  assumes "etaFirtsBin h = Finite f" and "deltaEtaBin h = Finite d" and "d \<noteq> 0"
    and "rd (\<bar>x\<bar> - f) = a" and "\<bar>a\<bar> < overflow_threshold"
    and "rd (a / d) = q" and "\<bar>q\<bar> < overflow_threshold"
    and "rd (of_int (\<lfloor>q\<rfloor> + 1)) = of_int m"
    and "\<bar>of_int m :: real\<bar> < overflow_threshold"
  shows "etaBin h (Finite x) =
     (if - (2 ^ 31) \<le> m \<and> m \<le> 2 ^ 31 - 1
      then Inr (if m > GetNbinsX h then GetNbinsX h else m)
      else Inl UndefinedConversion)"
proof -
  have 1: "rnd (dsub (fabs (Finite x)) (etaFirtsBin h)) = Finite a"
    using assms(1,4,5) by (simp add: dsub_def)
  have 2: "rnd (ddiv (Finite a) (deltaEtaBin h)) = Finite q"
    using assms(2,3,6,7) by simp
  have "dadd (dfloor (Finite q)) (Finite 1) = Finite (of_int (\<lfloor>q\<rfloor> + 1))"
    by simp
  then have 3: "rnd (dadd (dfloor (Finite q)) (Finite 1)) = Finite (of_int m)"
    using assms(8,9) by (simp only: rnd.simps) simp
  show ?thesis
    unfolding etaBin_def Let_def 1 2 3 double_to_int_of_int by simp
qed

lemma rd_one: "rd 1 = 1"
  using rd_of_int [of 1] by simp

lemma uniformHistogram_10_width:
  "GetBinWidth (uniformHistogram 10 0 1 c) b = Finite (3602879701896397 / 36028797018963968)"
  by (simp add: uniformHistogram_def rd_one rd_tenth)

lemma rd_nine_tenths:
  "rd (32425917317067573 / 36028797018963968) = 8106479329266893 / 9007199254740992"
  using rd_eval [of "- 1" "32425917317067573 / 36028797018963968"] by (simp add: round_even_def)

lemma rd_nine_tenths_again: "rd (8106479329266893 / 9007199254740992) = 8106479329266893 / 9007199254740992"
  using rd_eval [of "- 1" "8106479329266893 / 9007199254740992"] by (simp add: round_even_def)

lemma uniformHistogram_10_first:
  "GetBinLowEdge (uniformHistogram 10 0 1 c) 1 = Finite 0"
  by (simp add: uniformHistogram_def rd_def)

lemma uniformHistogram_10_last:
  "GetBinLowEdge (uniformHistogram 10 0 1 c) 10 = Finite (8106479329266893 / 9007199254740992)"
  by (simp add: uniformHistogram_def rd_one rd_tenth rd_nine_tenths rd_nine_tenths_again)

lemma rd_upper_edge: "rd (36028797018963969 / 36028797018963968) = 1"
  using rd_eval [of 0 "36028797018963969 / 36028797018963968"]
  by (simp add: round_even_def)

lemma deltaEtaBin_uniformHistogram_10:
  "deltaEtaBin (uniformHistogram 10 0 1 c) = Finite (3602879701896397 / 36028797018963968)"
proof -
  have n: "GetNbinsX (uniformHistogram 10 0 1 c) = 10" by (simp add: uniformHistogram_def)
  show ?thesis
    unfolding deltaEtaBin_def n uniformHistogram_10_width uniformHistogram_10_first
      uniformHistogram_10_last
    by (simp add: dsub_def rd_upper_edge rd_one rd_tenth overflow_threshold_def)
qed

lemma etaFirtsBin_uniformHistogram_10: "etaFirtsBin (uniformHistogram 10 0 1 c) = Finite 0"
  by (simp add: etaFirtsBin_def uniformHistogram_10_first)

lemma etaBin_quarter: "etaBin (uniformHistogram 10 0 1 c) (Finite (1 / 4)) = Inr 3"
proof -
  have a: "rd (\<bar>1 / 4\<bar> - 0) = 1 / 4"
    using rd_eval [of "- 2" "1 / 4"] by (simp add: round_even_def)
  have q: "rd ((1 / 4) / (3602879701896397 / 36028797018963968)) = 5 / 2"
    using rd_eval [of 1 "(1 / 4) / (3602879701896397 / 36028797018963968)"] by (simp add: round_even_def)
  have m: "rd (of_int (\<lfloor>5 / 2 :: real\<rfloor> + 1)) = of_int 3"
    using rd_of_int [of 3] by simp
  show ?thesis
    using etaBin_eval [OF etaFirtsBin_uniformHistogram_10 deltaEtaBin_uniformHistogram_10 _ a _ q _ m]
    by (simp add: uniformHistogram_def overflow_threshold_def)
qed



lemma etaBin_five: "etaBin (uniformHistogram 10 0 1 c) (Finite 5) = Inr 10"
proof -
  have a: "rd (\<bar>5\<bar> - 0) = 5"
    using rd_of_int [of 5] by simp
  have q: "rd (5 / (3602879701896397 / 36028797018963968)) = 50"
    using rd_eval [of 5 "5 / (3602879701896397 / 36028797018963968)"]
    by (simp add: round_even_def)
  have m: "rd (of_int (\<lfloor>50 :: real\<rfloor> + 1)) = of_int 51"
    using rd_of_int [of 51] by simp
  show ?thesis
    using etaBin_eval [OF etaFirtsBin_uniformHistogram_10 deltaEtaBin_uniformHistogram_10 _ a _ q _ m]
    by (simp add: uniformHistogram_def overflow_threshold_def)
qed

lemma etaBin_ten_billion:
  "etaBin (uniformHistogram 10 0 1 c) (Finite 10000000000) = Inl UndefinedConversion"
proof -
  have a: "rd (\<bar>10000000000\<bar> - 0) = 10000000000"
    using rd_of_int [of 10000000000] by simp
  have q: "rd (10000000000 / (3602879701896397 / 36028797018963968)) = 100000000000"
    using rd_eval [of 36 "10000000000 / (3602879701896397 / 36028797018963968)"]
    by (simp add: round_even_def)
  have m: "rd (of_int (\<lfloor>100000000000 :: real\<rfloor> + 1)) = of_int 100000000001"
    using rd_of_int [of 100000000001] by simp
  show ?thesis
    using etaBin_eval [OF etaFirtsBin_uniformHistogram_10 deltaEtaBin_uniformHistogram_10 _ a _ q _ m]
    by (simp add: uniformHistogram_def overflow_threshold_def)
qed


text \<open>
  An eta of 0.3, which as a double lies just below \<open>3 / 10\<close>: the quotient
  rounds to the double just below 3.
\<close>

lemma etaBin_three_tenths:
  "etaBin (uniformHistogram 10 0 1 c) (Finite (5404319552844595 / 18014398509481984)) = Inr 3"
proof -
  have a: "rd (\<bar>5404319552844595 / 18014398509481984\<bar> - 0)
             = 5404319552844595 / 18014398509481984"
    using rd_eval [of "- 2" "5404319552844595 / 18014398509481984"]
    by (simp add: round_even_def)
  have q: "rd ((5404319552844595 / 18014398509481984) / (3602879701896397 / 36028797018963968))
             = 6755399441055743 / 2251799813685248"
    using rd_eval [of 1 "(5404319552844595 / 18014398509481984)
                           / (3602879701896397 / 36028797018963968)"]
    by (simp add: round_even_def)
  have m: "rd (of_int (\<lfloor>6755399441055743 / 2251799813685248 :: real\<rfloor> + 1)) = of_int 3"
    using rd_of_int [of 3] by simp
  show ?thesis
    using etaBin_eval [OF etaFirtsBin_uniformHistogram_10 deltaEtaBin_uniformHistogram_10 _ a _ q _ m]
    by (simp add: uniformHistogram_def overflow_threshold_def)
qed

subsection \<open>The bin search inside the histogram range\<close>


section \<open>Properties of getNoiseConstantPerCell\<close>

lemma etaBin_at_most_Nbins: "etaBin h eta = Inr ibin \<Longrightarrow> ibin \<le> GetNbinsX h"
  by (auto simp: etaBin_def Let_def split: sum.splits if_splits)

lemma dsqrt_pow_2_alone: "dsqrt (dadd (pow_2 e) (pow_2 (Finite 0))) = fabs e"
  by (cases e) (simp_all add: pow_2_def)




lemma noiseComponents_fixture:
  assumes "etaBin h (Finite eta) = Inr ibin"
  shows "noiseComponents (fixtureTool n False [h] []) (fixtureGeometry eta 0) aCellId
         = Inr (GetBinContent h ibin, Finite 0)"
  using assms
  by (simp add: noiseComponents_def segmentation_def cellEta_def cellLayer_def at_vec_def
        fixtureTool_def fixtureGeometry_def Let_def)

lemma getNoiseConstantPerCell_fixture:
  assumes "etaBin h (Finite eta) = Inr ibin"
  shows "getNoiseConstantPerCell (fixtureTool n False [h] []) (fixtureGeometry eta 0) aCellId
         = Inr (fabs (GetBinContent h ibin))"
  by (simp add: getNoiseConstantPerCell_def noiseComponents_fixture [OF assms] dsqrt_pow_2_alone)

lemma estimate_fixture:
  assumes "etaBin h (Finite eta) = Inr ibin"
  shows "estimate (fixtureTool n False [h] []) (fixtureGeometry eta 0) aCellId
         = fabs (GetBinContent h ibin)"
  by (simp add: estimate_def getNoiseConstantPerCell_fixture [OF assms])

lemma content_uniformHistogram: "GetBinContent (uniformHistogram n xlow xup c) b = c"
  by (simp add: uniformHistogram_def)

text \<open>
  The scenario of an eta beyond the histogram range: 10 bins of content 1 on
  \<open>[0, 1)\<close>, a cell at eta 5 in layer 0. The bin is the last one.
\<close>

lemma getNoiseConstantPerCell_eta_five:
  "getNoiseConstantPerCell (fixtureTool 1 False [uniformHistogram 10 0 1 (Finite 1)] [])
     (fixtureGeometry 5 0) aCellId = Inr (Finite 1)"
  by (simp add: getNoiseConstantPerCell_fixture [OF etaBin_five] content_uniformHistogram)

text \<open>
  Claim C1. The same histogram and a cell at eta \<open>10\<^sup>1\<^sup>0\<close>, which lies beyond the
  upper edge of the last bin. The quotient is \<open>10\<^sup>1\<^sup>1\<close>, and
  \<^verbatim>\<open>floor(...) + 1\<close> is stored in the \<^verbatim>\<open>int\<close> \<^verbatim>\<open>ibin\<close> before it is compared with
  the number of bins. The value does not fit: the conversion is undefined, the
  clamp of line 199 comes too late, and the call does not yield the content of
  the last bin.
\<close>

theorem C1_huge_eta_escapes_the_clamp:
  "getNoiseConstantPerCell (fixtureTool 1 False [uniformHistogram 10 0 1 (Finite 1)] [])
     (fixtureGeometry 10000000000 0) 7 = Inl UndefinedConversion"
  by (simp add: getNoiseConstantPerCell_def noiseComponents_def segmentation_def cellEta_def
        cellLayer_def at_vec_def fixtureTool_def fixtureGeometry_def Let_def etaBin_ten_billion)

text \<open>
  Where the eta of the cell can be read and the bin search returns, a cell
  whose layer has no histogram gets the noise 0.
\<close>

lemma layer_beyond_histograms:
  assumes "segmentation g aCellId = Inr s" and "cellEta t g aCellId = Inr eta"
    and "m_histoElecNoiseConst t \<noteq> [] \<longrightarrow> returns (etaBin (m_histoElecNoiseConst t ! 0) eta)"
    and "length (m_histoElecNoiseConst t) \<le> cellLayer g aCellId"
  shows "getNoiseConstantPerCell t g aCellId = Inr (Finite 0)"
  using assms
  by (auto simp: getNoiseConstantPerCell_def noiseComponents_def at_vec_def Let_def returns_def
        pow_2_def split: sum.splits)

text \<open>
  Claim C3. A tool with one layer of noise, \<^verbatim>\<open>m_useSeg\<close> set, and a readout
  with a multi-segmentation, for which \<^verbatim>\<open>initialize\<close> succeeds and leaves
  \<^verbatim>\<open>m_segmentationPhiEta\<close> null. For a cell of layer 1, which has no histogram,
  line 170 finds the sub-segmentation, but line 182 reads the eta through the
  null member: the call fails before the layer is looked at.
\<close>

theorem C3_null_segmentation_is_dereferenced:
  "getNoiseConstantPerCell (fixtureTool 1 False [uniformHistogram 10 0 1 (Finite 1)] [])
     (multiSegmentationGeometry (1 / 4) 1) 7 = Inl NullDereference"
  by (simp add: getNoiseConstantPerCell_def noiseComponents_def segmentation_def cellEta_def
        fixtureTool_def multiSegmentationGeometry_def)










section \<open>Properties of filterCellNoise\<close>

lemma returns_estimate:
  "returns (getNoiseConstantPerCell t g aCellId)
     \<Longrightarrow> getNoiseConstantPerCell t g aCellId = Inr (estimate t g aCellId)"
  by (simp add: returns_def estimate_def split: sum.splits)

lemma below_threshold_returns:
  assumes "returns (getNoiseConstantPerCell t g (fst p))"
  shows "below_threshold t g p
         = Inr (dless (snd p) (dmul (m_filterThreshold t) (estimate t g (fst p))))"
  by (simp add: below_threshold_def returns_estimate [OF assms])

lemma below_threshold_fails:
  assumes "\<not> returns (getNoiseConstantPerCell t g (fst p))"
  shows "\<exists>e. below_threshold t g p = Inl e"
  using assms by (simp add: below_threshold_def returns_def split: sum.splits)

lemma find_if_end: "find_if pred xs (length xs) ev = Inr (length xs, ev)"
  by (simp add: find_if.simps)

lemma find_if_hit:
  assumes "pred x = Inr True"
  shows "find_if pred (pre @ x # post) (length pre) ev = Inr (length pre, ev @ [x])"
  using assms by (simp add: find_if.simps [of pred "pre @ x # post" "length pre"])

lemma find_if_miss:
  assumes "pred x = Inr False"
  shows "find_if pred (pre @ x # post) (length pre) ev
         = find_if pred (pre @ x # post) (Suc (length pre)) (ev @ [x])"
  using assms by (simp add: find_if.simps [of pred "pre @ x # post" "length pre"])

lemma find_if_fails:
  assumes "pred x = Inl e"
  shows "find_if pred (pre @ x # post) (length pre) ev = Inl e"
  using assms by (simp add: find_if.simps [of pred "pre @ x # post" "length pre"])

lemma erase_middle: "erase (pre @ x # post) (length pre) = pre @ post"
  by (simp add: erase_def)

lemma filterCellNoise_loop_hit:
  assumes "below_threshold t g x = Inr True"
  shows "filterCellNoise_loop t g (pre @ x # post) (length pre) ev
         = filterCellNoise_loop t g (pre @ post) (length pre) (ev @ [x])"
  by (simp add: filterCellNoise_loop.simps [of t g "pre @ x # post" "length pre"]
        find_if_hit [of "below_threshold t g" x, OF assms] erase_middle)

lemma filterCellNoise_loop_miss:
  assumes "below_threshold t g x = Inr False"
  shows "filterCellNoise_loop t g (pre @ x # post) (length pre) ev
         = filterCellNoise_loop t g ((pre @ [x]) @ post) (length (pre @ [x])) (ev @ [x])"
  by (simp add: filterCellNoise_loop.simps [of t g "pre @ x # post" "length pre"]
        filterCellNoise_loop.simps [of t g "pre @ x # post" "Suc (length pre)"]
        find_if_miss [of "below_threshold t g" x, OF assms])

text \<open>
  The loop invariant: with the iterator behind \<open>pre\<close>, the entries of \<open>pre\<close>
  stay, those of \<open>post\<close> are tested one after the other, each once.
\<close>

lemma filterCellNoise_loop_result:
  assumes "\<forall>p\<in>set post. returns (getNoiseConstantPerCell t g (fst p))"
  shows "filterCellNoise_loop t g (pre @ post) (length pre) ev
         = Inr (pre @ filter (\<lambda>p. \<not> dless (snd p)
                                     (dmul (m_filterThreshold t) (estimate t g (fst p)))) post,
                ev @ post)"
  using assms
proof (induction post arbitrary: pre ev)
  case Nil
  show ?case
    by (simp add: filterCellNoise_loop.simps [of t g pre "length pre"] find_if_end)
next
  case (Cons x post)
  have x: "below_threshold t g x
           = Inr (dless (snd x) (dmul (m_filterThreshold t) (estimate t g (fst x))))"
    using Cons.prems by (intro below_threshold_returns) simp
  have rest: "\<forall>p\<in>set post. returns (getNoiseConstantPerCell t g (fst p))"
    using Cons.prems by simp
  show ?case
  proof (cases "dless (snd x) (dmul (m_filterThreshold t) (estimate t g (fst x)))")
    case True
    then have "below_threshold t g x = Inr True" using x by simp
    then show ?thesis
      using True Cons.IH [OF rest, of pre "ev @ [x]"] by (simp add: filterCellNoise_loop_hit)
  next
    case False
    then have "below_threshold t g x = Inr False" using x by simp
    then show ?thesis
      using False Cons.IH [OF rest, of "pre @ [x]" "ev @ [x]"]
      by (simp add: filterCellNoise_loop_miss)
  qed
qed

lemma filterCellNoise_loop_fails:
  assumes "\<exists>p\<in>set post. \<not> returns (getNoiseConstantPerCell t g (fst p))"
  shows "\<exists>e. filterCellNoise_loop t g (pre @ post) (length pre) ev = Inl e"
  using assms
proof (induction post arbitrary: pre ev)
  case Nil
  then show ?case by simp
next
  case (Cons x post)
  show ?case
  proof (cases "returns (getNoiseConstantPerCell t g (fst x))")
    case False
    then obtain e where "below_threshold t g x = Inl e"
      using below_threshold_fails by blast
    then have "filterCellNoise_loop t g (pre @ x # post) (length pre) ev = Inl e"
      by (simp add: filterCellNoise_loop.simps [of t g "pre @ x # post" "length pre"]
            find_if_fails [of "below_threshold t g" x e])
    then show ?thesis by blast
  next
    case True
    then have rest: "\<exists>p\<in>set post. \<not> returns (getNoiseConstantPerCell t g (fst p))"
      using Cons.prems by auto
    show ?thesis
    proof (cases "dless (snd x) (dmul (m_filterThreshold t) (estimate t g (fst x)))")
      case True
      then have "below_threshold t g x = Inr True"
        using below_threshold_returns [OF \<open>returns (getNoiseConstantPerCell t g (fst x))\<close>]
        by simp
      then show ?thesis
        using Cons.IH [OF rest, of pre "ev @ [x]"] by (simp add: filterCellNoise_loop_hit)
    next
      case False
      then have "below_threshold t g x = Inr False"
        using below_threshold_returns [OF \<open>returns (getNoiseConstantPerCell t g (fst x))\<close>]
        by simp
      then show ?thesis
        using Cons.IH [OF rest, of "pre @ [x]" "ev @ [x]"]
        by (simp add: filterCellNoise_loop_miss)
    qed
  qed
qed

lemma filterCellNoise_result:
  assumes "\<forall>p\<in>set aCells. returns (getNoiseConstantPerCell t g (fst p))"
  shows "filterCellNoise t g aCells
         = Inr (filter (\<lambda>p. \<not> dless (snd p)
                               (dmul (m_filterThreshold t) (estimate t g (fst p)))) aCells,
                aCells)"
  using filterCellNoise_loop_result [OF assms, of "[]" "[]"]
  by (simp add: filterCellNoise_def)

lemma filterCellNoise_returned:
  assumes "filterCellNoise t g aCells = Inr (kept, evaluated)"
  shows "\<forall>p\<in>set aCells. returns (getNoiseConstantPerCell t g (fst p))"
proof (rule ccontr)
  assume "\<not> (\<forall>p\<in>set aCells. returns (getNoiseConstantPerCell t g (fst p)))"
  then have "\<exists>p\<in>set aCells. \<not> returns (getNoiseConstantPerCell t g (fst p))" by simp
  from filterCellNoise_loop_fails [OF this, of "[]" "[]"]
  show False using assms by (simp add: filterCellNoise_def)
qed

lemma map_of_filter_distinct:
  assumes "distinct (map fst xs)"
  shows "map_of (filter (\<lambda>p. Q (fst p) (snd p)) xs) k
         = (case map_of xs k of None \<Rightarrow> None | Some e \<Rightarrow> if Q k e then Some e else None)"
  using assms
proof (induction xs)
  case Nil
  show ?case by simp
next
  case (Cons x xs)
  have "map_of xs (fst x) = None"
    using Cons.prems by (simp add: map_of_eq_None_iff)
  then show ?case using Cons by (cases x) (auto split: option.splits)
qed

lemma estimate_example:
  "estimate (fixtureTool n False [uniformHistogram 10 0 1 (Finite 1)] [])
     (fixtureGeometry (1 / 4) 0) aCellId = Finite 1"
  using estimate_fixture [OF etaBin_quarter [of "Finite 1"], of n aCellId]
  by (simp add: content_uniformHistogram)

lemma returns_example:
  "returns (getNoiseConstantPerCell (fixtureTool n False [uniformHistogram 10 0 1 (Finite 1)] [])
     (fixtureGeometry (1 / 4) 0) aCellId)"
  using getNoiseConstantPerCell_fixture [OF etaBin_quarter [of "Finite 1"], of n aCellId]
  by (simp add: returns_def)

lemma threshold_fixture: "m_filterThreshold (fixtureTool n b es ps) = Finite 3"
  by (simp add: fixtureTool_def)

lemma filterCellNoise_example:
  "filterCellNoise (fixtureTool n False [uniformHistogram 10 0 1 (Finite 1)] [])
     (fixtureGeometry (1 / 4) 0) [(1, Finite (5 / 2)), (2, Finite (7 / 2))]
   = Inr ([(2, Finite (7 / 2))], [(1, Finite (5 / 2)), (2, Finite (7 / 2))])"
  by (subst filterCellNoise_result) (simp_all add: returns_example estimate_example threshold_fixture)

lemma filterCellNoise_example_again:
  "filterCellNoise (fixtureTool n False [uniformHistogram 10 0 1 (Finite 1)] [])
     (fixtureGeometry (1 / 4) 0) [(2, Finite (7 / 2))]
   = Inr ([(2, Finite (7 / 2))], [(2, Finite (7 / 2))])"
  by (subst filterCellNoise_result) (simp_all add: returns_example estimate_example threshold_fixture)



text \<open>
  Claim C7. Running \<^verbatim>\<open>filterCellNoise\<close> on the result of a first run, with the
  same tool, returns that result unchanged: the second run applies the
  predicate to every entry left and erases none.
\<close>

theorem C7_filter_is_idempotent:
  "(\<forall>kept evaluated.
      filterCellNoise t g aCells = Inr (kept, evaluated)
        \<longrightarrow> filterCellNoise t g kept = Inr (kept, kept))
   \<and> ((\<forall>p\<in>set aCells. returns (getNoiseConstantPerCell t g (fst p)))
        \<longrightarrow> (\<exists>kept. filterCellNoise t g aCells = Inr (kept, aCells)
                     \<and> filterCellNoise t g kept = Inr (kept, kept)))"
proof -
  let ?keep = "\<lambda>p. \<not> dless (snd p) (dmul (m_filterThreshold t) (estimate t g (fst p)))"
  have second: "filterCellNoise t g (filter ?keep aCells)
                  = Inr (filter ?keep aCells, filter ?keep aCells)"
    if "\<forall>p\<in>set aCells. returns (getNoiseConstantPerCell t g (fst p))"
  proof -
    have "\<forall>p\<in>set (filter ?keep aCells). returns (getNoiseConstantPerCell t g (fst p))"
      using that by simp
    from filterCellNoise_result [OF this] show ?thesis by simp
  qed
  have "filterCellNoise t g kept = Inr (kept, kept)"
    if "filterCellNoise t g aCells = Inr (kept, evaluated)" for kept evaluated
  proof -
    have all: "\<forall>p\<in>set aCells. returns (getNoiseConstantPerCell t g (fst p))"
      using that by (rule filterCellNoise_returned)
    have "kept = filter ?keep aCells"
      using filterCellNoise_result [OF all] that by simp
    then show ?thesis using second [OF all] by simp
  qed
  then show ?thesis
    using filterCellNoise_result [of aCells t g] by blast
qed

theorem C7_witness:
  "returns (getNoiseConstantPerCell
      (fixtureTool 1 False [uniformHistogram 10 0 1 (Finite 1)] [])
      (fixtureGeometry (1 / 4) 0) 1)
   \<and> returns (getNoiseConstantPerCell
      (fixtureTool 1 False [uniformHistogram 10 0 1 (Finite 1)] [])
      (fixtureGeometry (1 / 4) 0) 2)
   \<and> filterCellNoise (fixtureTool 1 False [uniformHistogram 10 0 1 (Finite 1)] [])
        (fixtureGeometry (1 / 4) 0) [(1, Finite (5 / 2)), (2, Finite (7 / 2))]
       = Inr ([(2, Finite (7 / 2))], [(1, Finite (5 / 2)), (2, Finite (7 / 2))])
   \<and> filterCellNoise (fixtureTool 1 False [uniformHistogram 10 0 1 (Finite 1)] [])
        (fixtureGeometry (1 / 4) 0) [(2, Finite (7 / 2))]
       = Inr ([(2, Finite (7 / 2))], [(2, Finite (7 / 2))])"
proof -
  let ?t = "fixtureTool 1 False [uniformHistogram 10 0 1 (Finite 1)] []"
  let ?g = "fixtureGeometry (1 / 4) 0"
  let ?cells = "[(1 :: cellid, Finite (5 / 2)), (2, Finite (7 / 2))]"
  have all: "\<forall>p\<in>set ?cells. returns (getNoiseConstantPerCell ?t ?g (fst p))"
    by (simp add: returns_example)
  have first: "filterCellNoise ?t ?g ?cells = Inr ([(2, Finite (7 / 2))], ?cells)"
    by (rule filterCellNoise_example)
  have "filterCellNoise ?t ?g [(2, Finite (7 / 2))]
          = Inr ([(2, Finite (7 / 2))], [(2, Finite (7 / 2))])"
    using C7_filter_is_idempotent [of ?t ?g ?cells] first by blast
  then show ?thesis using all first by simp
qed

text \<open>
  Claim C10. \<^verbatim>\<open>filterCellNoise\<close> changes no energy: where it returns, every
  entry left is an entry of the original collection, so a key that is left
  maps to the energy it had before the call. It returns whenever the noise
  lookup returns for every cell of the collection.
\<close>

theorem C10_filter_keeps_energies:
  "(\<forall>kept evaluated.
      filterCellNoise t g aCells = Inr (kept, evaluated) \<longrightarrow>
        set kept \<subseteq> set aCells
        \<and> (distinct (map fst aCells) \<longrightarrow>
             (\<forall>k e. map_of kept k = Some e \<longrightarrow> map_of aCells k = Some e)))
   \<and> ((\<forall>p\<in>set aCells. returns (getNoiseConstantPerCell t g (fst p)))
        \<longrightarrow> (\<exists>kept evaluated. filterCellNoise t g aCells = Inr (kept, evaluated)))"
proof -
  let ?keep = "\<lambda>p. \<not> dless (snd p) (dmul (m_filterThreshold t) (estimate t g (fst p)))"
  have same: "map_of aCells k = Some e"
    if "distinct (map fst aCells)" and "map_of (filter ?keep aCells) k = Some e" for k e
    using that(2)
      map_of_filter_distinct
        [OF that(1), of "\<lambda>k e. \<not> dless e (dmul (m_filterThreshold t) (estimate t g k))" k]
    by (auto split: option.splits if_splits)
  have "kept = filter ?keep aCells"
    if "filterCellNoise t g aCells = Inr (kept, evaluated)" for kept evaluated
    using filterCellNoise_result [OF filterCellNoise_returned [OF that]] that by simp
  then show ?thesis
    using same filterCellNoise_result [of aCells t g] by (intro conjI allI impI) auto
qed

theorem C10_witness:
  "filterCellNoise (fixtureTool 1 False [uniformHistogram 10 0 1 (Finite 1)] [])
      (fixtureGeometry (1 / 4) 0) [(1, Finite (5 / 2)), (2, Finite (7 / 2))]
     = Inr ([(2, Finite (7 / 2))], [(1, Finite (5 / 2)), (2, Finite (7 / 2))])
   \<and> distinct (map fst [(1 :: cellid, Finite (5 / 2)), (2, Finite (7 / 2))])
   \<and> map_of [(2 :: cellid, Finite (7 / 2))] 2 = Some (Finite (7 / 2))
   \<and> map_of [(1 :: cellid, Finite (5 / 2)), (2, Finite (7 / 2))] 2 = Some (Finite (7 / 2))"
proof -
  let ?t = "fixtureTool 1 False [uniformHistogram 10 0 1 (Finite 1)] []"
  let ?g = "fixtureGeometry (1 / 4) 0"
  let ?cells = "[(1 :: cellid, Finite (5 / 2)), (2, Finite (7 / 2))]"
  have run: "filterCellNoise ?t ?g ?cells = Inr ([(2, Finite (7 / 2))], ?cells)"
    by (rule filterCellNoise_example)
  have dist: "distinct (map fst ?cells)" by simp
  have left: "map_of [(2 :: cellid, Finite (7 / 2))] 2 = Some (Finite (7 / 2))" by simp
  have "map_of ?cells 2 = Some (Finite (7 / 2))"
    using C10_filter_keeps_energies [of ?t ?g ?cells] run dist left by blast
  then show ?thesis using run dist left by simp
qed

section \<open>Properties of addRandomCellNoise\<close>





section \<open>Properties of initNoiseFromFile\<close>

lemma to_string_1: "to_string (Suc 0) = ''1''"
  by (simp add: to_string.simps digit_def)

lemma readHistograms_missing_histogram:
  assumes "i < m_numRadialLayers t"
    and "Get noiseFile (m_elecNoiseHistoName t @ to_string (i + 1)) = None"
  shows "readHistograms t noiseFile i = Inl NullDereference"
  using assms by (simp add: readHistograms.simps [of t noiseFile i])

lemma readHistograms_done:
  "m_numRadialLayers t \<le> i \<Longrightarrow> readHistograms t noiseFile i = Inr t"
  by (simp add: readHistograms.simps [of t noiseFile i])

lemma checkHistograms_no_histograms:
  "m_histoElecNoiseConst t = [] \<Longrightarrow> checkHistograms t = Inl NoHistogramsFound"
  by (simp add: checkHistograms_def)

lemma checkHistograms_different_number:
  "m_histoElecNoiseConst t \<noteq> [] \<Longrightarrow> m_addPileup t
     \<Longrightarrow> length (m_histoElecNoiseConst t) \<noteq> length (m_histoPileupConst t)
     \<Longrightarrow> checkHistograms t = Inl DifferentNumberOfHistograms"
  by (simp add: checkHistograms_def)

lemma initNoiseFromFile_success:
  assumes "initNoiseFromFile TFile_Open t = Inr t'"
  shows "same_number_of_histograms t' \<and> m_histoElecNoiseConst t' \<noteq> []"
  using assms
  by (auto simp: initNoiseFromFile_def checkHistograms_def same_number_of_histograms_def
           split: if_splits option.splits sum.splits)

lemma initNoiseFromFile_zero_bins:
  "initNoiseFromFile
     (onlyFile (fileWithHistogram ''h_elecNoise_1'' histogramWithoutBins))
     (fixtureTool 1 False [] []) = Inl (HistogramHasZeroBins ''h_elecNoise_1'')"
  by (simp add: initNoiseFromFile_def onlyFile_def fileWithHistogram_def fixtureTool_def
        histogramWithoutBins_def readHistograms.simps [of _ _ 0] to_string_1 at_vec_def)

lemma initNoiseFromFile_no_layers:
  "initNoiseFromFile (onlyFile fileWithoutHistograms) (fixtureTool 0 False [] [])
     = Inl NoHistogramsFound"
  by (simp add: initNoiseFromFile_def onlyFile_def fileWithoutHistograms_def fixtureTool_def
        readHistograms.simps [of _ _ 0] checkHistograms_def)

lemma initNoiseFromFile_one_layer:
  "initNoiseFromFile
     (onlyFile (fileWithHistogram ''h_elecNoise_1'' (uniformHistogram 10 0 1 (Finite 1))))
     (fixtureTool 1 False [] [])
   = Inr (fixtureTool 1 False [uniformHistogram 10 0 1 (Finite 1)] [])"
  by (simp add: initNoiseFromFile_def onlyFile_def fileWithHistogram_def fixtureTool_def
        readHistograms.simps [of _ _ 0] readHistograms.simps [of _ _ "Suc 0"]
        to_string_1 at_vec_def checkHistograms_def uniformHistogram_def)

text \<open>
  Claim C5. One radial layer is configured and the noise file holds no
  histogram under the required name. \<^verbatim>\<open>TFile::Get\<close> yields a null pointer,
  the \<^verbatim>\<open>dynamic_cast\<close> keeps it null, and \<^verbatim>\<open>initNoiseFromFile\<close> dereferences
  it: the call does not end in one of its \<^verbatim>\<open>StatusCode::FAILURE\<close> returns. The
  other outcomes of the construction are the lemmas above: a histogram
  without bins, no layer at all, different numbers of histograms, success.
\<close>

theorem C5_missing_histogram_is_dereferenced:
  "initNoiseFromFile (onlyFile fileWithoutHistograms) (fixtureTool 1 False [] [])
     = Inl NullDereference"
  by (simp add: initNoiseFromFile_def onlyFile_def fileWithoutHistograms_def fixtureTool_def
        readHistograms.simps [of _ _ 0])

end
